theory Spec2Isabelle
  imports Complex_Main
begin

section \<open>JavaScript values used by script.js\<close>

text \<open>
  Strings of the program are modelled as \<^typ>\<open>string\<close>: one \<^typ>\<open>char\<close> per UTF-16 code
  unit, for code units below 256. Every character that script.js tests for lies in that
  range: the digits, \<open>+ - * / . ( )\<close>, the display glyphs U+00D7 and U+00F7, and the
  white space that \<open>\s\<close> matches below 256.
\<close>

definition glyph_times :: char where
  "glyph_times = CHR 0xD7"

definition glyph_div :: char where
  "glyph_div = CHR 0xF7"

definition is_digit :: "char \<Rightarrow> bool" where
  "is_digit c = (c \<in> set ''0123456789'')"

definition is_octal_digit :: "char \<Rightarrow> bool" where
  "is_octal_digit c = (c \<in> set ''01234567'')"

text \<open>The characters matched by \<open>\s\<close> (tab, LF, VT, FF, CR, space, NBSP).\<close>

definition is_space :: "char \<Rightarrow> bool" where
  "is_space c = (c \<in> {CHR 0x09, CHR 0x0A, CHR 0x0B, CHR 0x0C, CHR 0x0D, CHR 0x20, CHR 0xA0})"

definition digit_val :: "char \<Rightarrow> int" where
  "digit_val c = of_char c - 48"

definition digits_val :: "int \<Rightarrow> string \<Rightarrow> int" where
  "digits_val base ds = foldl (\<lambda>a c. base * a + digit_val c) 0 ds"

subsection \<open>Numbers: IEEE 754 binary64\<close>

text \<open>
  A Number is NaN, an infinity, negative zero, or a finite double given by its exact
  rational value (\<open>Fin 0\<close> is positive zero). \<open>to_double\<close> rounds an exact rational to
  the nearest double, ties to even, with gradual underflow and overflow to the infinities.
\<close>

datatype jsnum = NaN | PosInf | NegInf | NegZero | Fin rat

text \<open>The number of binary digits of a positive integer.\<close>

function bitlen :: "int \<Rightarrow> int" where
  "bitlen n = (if n \<le> 0 then 0 else 1 + bitlen (n div 2))"
  by pat_completeness auto
termination
  by (relation "measure nat") auto

declare bitlen.simps [simp del]

definition pow2 :: "int \<Rightarrow> rat" where
  "pow2 e = (if 0 \<le> e then 2 ^ nat e else 1 / 2 ^ nat (- e))"

definition pow10 :: "int \<Rightarrow> rat" where
  "pow10 e = (if 0 \<le> e then 10 ^ nat e else 1 / 10 ^ nat (- e))"

definition round_half_even :: "rat \<Rightarrow> int" where
  "round_half_even x =
     (let f = \<lfloor>x\<rfloor>; r = x - of_int f
      in if r < 1 / 2 then f else if 1 / 2 < r then f + 1 else if even f then f else f + 1)"

text \<open>\<open>floor_log2 x\<close> is the integer \<open>g\<close> with \<open>2^g \<le> x < 2^(g+1)\<close>, for \<open>x > 0\<close>.\<close>

definition floor_log2 :: "rat \<Rightarrow> int" where
  "floor_log2 x =
     (case quotient_of x of (n, d) \<Rightarrow>
        let g = bitlen n - bitlen d
        in if pow2 g \<le> x then g else g - 1)"

definition to_double :: "rat \<Rightarrow> jsnum" where
  "to_double x =
     (if x = 0 then Fin 0
      else let a = \<bar>x\<bar>;
               e = max (floor_log2 a - 52) (- 1074);
               m = round_half_even (a / pow2 e)
           in if 971 < e \<or> (e = 971 \<and> m = 2 ^ 53) then (if x < 0 then NegInf else PosInf)
              else if m = 0 then (if x < 0 then NegZero else Fin 0)
              else Fin (if x < 0 then - (of_int m * pow2 e) else of_int m * pow2 e))"

text \<open>The sign bit, and the operations \<open>-x\<close>, \<open>x + y\<close>, \<open>x - y\<close>, \<open>x * y\<close>, \<open>x / y\<close>
  of ECMAScript's Number type.\<close>

fun is_negative :: "jsnum \<Rightarrow> bool" where
  "is_negative NaN = False"
| "is_negative PosInf = False"
| "is_negative NegInf = True"
| "is_negative NegZero = True"
| "is_negative (Fin x) = (x < 0)"

fun is_zero :: "jsnum \<Rightarrow> bool" where
  "is_zero NegZero = True"
| "is_zero (Fin x) = (x = 0)"
| "is_zero _ = False"

fun is_inf :: "jsnum \<Rightarrow> bool" where
  "is_inf PosInf = True"
| "is_inf NegInf = True"
| "is_inf _ = False"

fun rat_of :: "jsnum \<Rightarrow> rat" where
  "rat_of (Fin x) = x"
| "rat_of _ = 0"

definition signed_inf :: "bool \<Rightarrow> jsnum" where
  "signed_inf neg = (if neg then NegInf else PosInf)"

definition signed_zero :: "bool \<Rightarrow> jsnum" where
  "signed_zero neg = (if neg then NegZero else Fin 0)"

fun js_neg :: "jsnum \<Rightarrow> jsnum" where
  "js_neg NaN = NaN"
| "js_neg PosInf = NegInf"
| "js_neg NegInf = PosInf"
| "js_neg NegZero = Fin 0"
| "js_neg (Fin x) = (if x = 0 then NegZero else Fin (- x))"

definition js_add :: "jsnum \<Rightarrow> jsnum \<Rightarrow> jsnum" where
  "js_add a b =
     (if a = NaN \<or> b = NaN then NaN
      else if is_inf a then (if is_inf b \<and> a \<noteq> b then NaN else a)
      else if is_inf b then b
      else if a = NegZero then b
      else if b = NegZero then a
      else to_double (rat_of a + rat_of b))"

definition js_sub :: "jsnum \<Rightarrow> jsnum \<Rightarrow> jsnum" where
  "js_sub a b = js_add a (js_neg b)"

definition js_mul :: "jsnum \<Rightarrow> jsnum \<Rightarrow> jsnum" where
  "js_mul a b =
     (let neg = (is_negative a \<noteq> is_negative b)
      in if a = NaN \<or> b = NaN then NaN
         else if is_inf a \<or> is_inf b then
           (if is_zero a \<or> is_zero b then NaN else signed_inf neg)
         else if is_zero a \<or> is_zero b then signed_zero neg
         else (case to_double (rat_of a * rat_of b) of
                 Fin x \<Rightarrow> if x = 0 then signed_zero neg else Fin x
               | r \<Rightarrow> r))"

definition js_div :: "jsnum \<Rightarrow> jsnum \<Rightarrow> jsnum" where
  "js_div a b =
     (let neg = (is_negative a \<noteq> is_negative b)
      in if a = NaN \<or> b = NaN then NaN
         else if is_inf a then (if is_inf b then NaN else signed_inf neg)
         else if is_inf b then signed_zero neg
         else if is_zero b then (if is_zero a then NaN else signed_inf neg)
         else if is_zero a then signed_zero neg
         else (case to_double (rat_of a / rat_of b) of
                 Fin x \<Rightarrow> if x = 0 then signed_zero neg else Fin x
               | r \<Rightarrow> r))"

definition isFinite :: "jsnum \<Rightarrow> bool" where
  "isFinite x = (x \<noteq> NaN \<and> \<not> is_inf x)"

definition isNaN :: "jsnum \<Rightarrow> bool" where
  "isNaN x = (x = NaN)"

definition isInteger :: "jsnum \<Rightarrow> bool" where
  "isInteger x = (isFinite x \<and> rat_of x = of_int \<lfloor>rat_of x\<rfloor>)"

subsection \<open>Number to string and string to number\<close>

definition digit_char :: "int \<Rightarrow> char" where
  "digit_char n = char_of (48 + n)"

text \<open>The decimal digits of a non-negative integer.\<close>

function digits_of :: "int \<Rightarrow> string" where
  "digits_of n = (if n < 10 then [digit_char n] else digits_of (n div 10) @ [digit_char (n mod 10)])"
  by pat_completeness auto
termination
  by (relation "measure nat") auto

declare digits_of.simps [simp del]

text \<open>\<open>floor_log10 x\<close> is the integer \<open>g\<close> with \<open>10^g \<le> x < 10^(g+1)\<close>, for \<open>x > 0\<close>.\<close>

definition floor_log10 :: "rat \<Rightarrow> int" where
  "floor_log10 x =
     (case quotient_of x of (n, d) \<Rightarrow>
        let g = int (length (digits_of n)) - int (length (digits_of d))
        in if pow10 g \<le> x then g else g - 1)"

text \<open>
  Number::toString(x) takes integers \<open>n\<close>, \<open>k\<close>, \<open>s\<close> with \<open>k\<close> as small as possible such
  that \<open>s\<close> has \<open>k\<close> digits and \<open>s * 10^(n-k)\<close> rounds to \<open>x\<close>; among several \<open>s\<close> the one
  closest to \<open>x\<close>, the even one on a tie. For a given \<open>k\<close> only the two multiples of
  \<open>10^(n-k)\<close> around \<open>x\<close> can qualify.
\<close>

definition digit_candidate :: "rat \<Rightarrow> int \<Rightarrow> nat \<Rightarrow> int option" where
  "digit_candidate v n k =
     (let u = pow10 (n - int k);
          lo = \<lfloor>v / u\<rfloor>;
          hi = lo + 1;
          oklo = (to_double (of_int lo * u) = Fin v);
          okhi = (to_double (of_int hi * u) = Fin v);
          dlo = v - of_int lo * u;
          dhi = of_int hi * u - v
      in if oklo \<and> okhi then (if dlo < dhi \<or> (dlo = dhi \<and> even lo) then Some lo else Some hi)
         else if oklo then Some lo
         else if okhi then Some hi
         else None)"

text \<open>Seventeen significant digits identify every double, so the search ends in the list
  \<open>[1..<18]\<close>; the last equation is the seventeen-digit value itself.\<close>

fun find_digits :: "rat \<Rightarrow> int \<Rightarrow> nat list \<Rightarrow> int \<times> nat" where
  "find_digits v n [] = (\<lfloor>v / pow10 (n - 17)\<rfloor>, 17)"
| "find_digits v n (k # ks) =
     (case digit_candidate v n k of Some s \<Rightarrow> (s, k) | None \<Rightarrow> find_digits v n ks)"

definition exponent_text :: "int \<Rightarrow> string" where
  "exponent_text e = (if e < 0 then ''e-'' else ''e+'') @ digits_of \<bar>e\<bar>"

definition positive_to_string :: "rat \<Rightarrow> string" where
  "positive_to_string v =
     (let n0 = floor_log10 v + 1;
          sk = find_digits v n0 [1..<18];
          k = snd sk;
          ds0 = digits_of (fst sk);
          n = (if k < length ds0 then n0 + 1 else n0);
          ds = take k ds0
      in if int k \<le> n \<and> n \<le> 21 then ds @ replicate (nat (n - int k)) CHR ''0''
         else if 0 < n \<and> n \<le> 21 then take (nat n) ds @ ''.'' @ drop (nat n) ds
         else if - 6 < n \<and> n \<le> 0 then ''0.'' @ replicate (nat (- n)) CHR ''0'' @ ds
         else if k = 1 then ds @ exponent_text (n - 1)
         else take 1 ds @ ''.'' @ drop 1 ds @ exponent_text (n - 1))"

fun toString :: "jsnum \<Rightarrow> string" where
  "toString NaN = ''NaN''"
| "toString PosInf = ''Infinity''"
| "toString NegInf = ''-Infinity''"
| "toString NegZero = ''0''"
| "toString (Fin x) =
     (if x = 0 then ''0''
      else if x < 0 then ''-'' @ positive_to_string (- x)
      else positive_to_string x)"

text \<open>Number.prototype.toFixed(f): the integer \<open>n\<close> with \<open>n / 10^f\<close> closest to \<open>|x|\<close>, the
  larger one on a tie, printed with \<open>f\<close> digits after the point.\<close>

definition toFixed :: "nat \<Rightarrow> jsnum \<Rightarrow> string" where
  "toFixed f x =
     (if \<not> isFinite x \<or> 10 ^ 21 \<le> \<bar>rat_of x\<bar> then toString x
      else let n = \<lfloor>\<bar>rat_of x\<bar> * 10 ^ f + 1 / 2\<rfloor>;
               m = digits_of n;
               mm = (if length m \<le> f then replicate (f + 1 - length m) CHR ''0'' @ m else m);
               k = length mm
           in (if rat_of x < 0 then ''-'' else []) @
              (if f = 0 then m else take (k - f) mm @ ''.'' @ drop (k - f) mm))"

text \<open>parseFloat: leading white space is skipped, the longest prefix that is a
  StrDecimalLiteral is read, and its value is rounded to a double; NaN without such a prefix.\<close>

definition exponent_part :: "string \<Rightarrow> int" where
  "exponent_part r =
     (case r of
        [] \<Rightarrow> 0
      | c # r1 \<Rightarrow>
          if c = CHR ''e'' \<or> c = CHR ''E'' then
            (let neg = (r1 \<noteq> [] \<and> hd r1 = CHR ''-'');
                 r2 = (if r1 \<noteq> [] \<and> (hd r1 = CHR ''-'' \<or> hd r1 = CHR ''+'') then tl r1 else r1);
                 ds = takeWhile is_digit r2
             in if ds = [] then 0
                else if neg then - digits_val 10 ds else digits_val 10 ds)
          else 0)"

definition parseFloat :: "string \<Rightarrow> jsnum" where
  "parseFloat s =
     (let t = dropWhile is_space s;
          neg = (t \<noteq> [] \<and> hd t = CHR ''-'');
          u = (if t \<noteq> [] \<and> (hd t = CHR ''-'' \<or> hd t = CHR ''+'') then tl t else t)
      in if take 8 u = ''Infinity'' then signed_inf neg
         else let ip = takeWhile is_digit u;
                  r1 = dropWhile is_digit u;
                  dot = (r1 \<noteq> [] \<and> hd r1 = CHR ''.'');
                  fp = (if dot then takeWhile is_digit (tl r1) else []);
                  r2 = (if dot then dropWhile is_digit (tl r1) else r1)
              in if ip = [] \<and> fp = [] then NaN
                 else let mv = of_int (digits_val 10 (ip @ fp)) *
                               pow10 (exponent_part r2 - int (length fp))
                      in if mv = 0 then signed_zero neg
                         else to_double (if neg then - mv else mv))"

section \<open>The host's evaluation of \<open>new Function('return ' + sanitized)()\<close>\<close>

text \<open>
  evaluateExpression hands the host a function body \<open>return e\<close> whose text \<open>e\<close> has passed
  the white list \<open>[0-9+\-*/.()]\<close>. Over that alphabet the ECMAScript lexical grammar has
  numeric literals, the punctuators \<open>+ - * / ** ++ -- ( ) .\<close>, comments opened by \<open>//\<close>
  and \<open>/*\<close>, and regular expression literals where a \<open>/\<close> starts an operand.
\<close>

datatype token =
  TNum jsnum | TPlus | TMinus | TStar | TSlash | TPow | TInc | TDec | TLParen | TRParen | TDot

text \<open>The text after \<open>/*\<close>: what follows the first \<open>*/\<close>, or nothing when the comment
  is not closed (a SyntaxError).\<close>

fun close_comment :: "string \<Rightarrow> string option" where
  "close_comment [] = None"
| "close_comment [c] = None"
| "close_comment (c # d # r) =
     (if c = CHR ''*'' \<and> d = CHR ''/'' then Some r else close_comment (d # r))"

text \<open>
  A numeric literal that starts with the character \<open>c\<close>, a digit or a point followed by a
  digit. A run of two or more digits that starts with \<open>0\<close> is a legacy octal literal when
  all its digits are octal (the function body is sloppy-mode code), and no fraction can
  follow it; any other run of digits is decimal and takes an optional fraction.
\<close>

definition scan_number :: "char \<Rightarrow> string \<Rightarrow> jsnum \<times> string" where
  "scan_number c cs =
     (if c = CHR ''.'' then
        (let fp = takeWhile is_digit cs
         in (to_double (of_int (digits_val 10 fp) / 10 ^ length fp), dropWhile is_digit cs))
      else
        (let ip = c # takeWhile is_digit cs;
             r = dropWhile is_digit cs
         in if 2 \<le> length ip \<and> c = CHR ''0'' \<and> list_all is_octal_digit ip then
              (to_double (of_int (digits_val 8 ip)), r)
            else if r \<noteq> [] \<and> hd r = CHR ''.'' then
              (let fp = takeWhile is_digit (tl r)
               in (to_double (of_int (digits_val 10 (ip @ fp)) / 10 ^ length fp),
                   dropWhile is_digit (tl r)))
            else (to_double (of_int (digits_val 10 ip)), r)))"

definition cons_token :: "token \<Rightarrow> token list option \<Rightarrow> token list option" where
  "cons_token t r = map_option ((#) t) r"

text \<open>
  The token sequence of a program, longest match first; \<open>None\<close> is a SyntaxError of the
  lexical grammar. A line comment runs to the end of the text. A character outside the
  white list never reaches this function.
\<close>

function lex :: "string \<Rightarrow> token list option" where
  "lex [] = Some []"
| "lex (c # cs) =
     (if c = CHR ''/'' then
        (case cs of
           [] \<Rightarrow> Some [TSlash]
         | d # ds \<Rightarrow>
             if d = CHR ''/'' then Some []
             else if d = CHR ''*'' then
               (case close_comment ds of None \<Rightarrow> None | Some r \<Rightarrow> lex r)
             else cons_token TSlash (lex cs))
      else if c = CHR ''+'' then
        (case cs of
           [] \<Rightarrow> Some [TPlus]
         | d # ds \<Rightarrow> if d = CHR ''+'' then cons_token TInc (lex ds) else cons_token TPlus (lex cs))
      else if c = CHR ''-'' then
        (case cs of
           [] \<Rightarrow> Some [TMinus]
         | d # ds \<Rightarrow> if d = CHR ''-'' then cons_token TDec (lex ds) else cons_token TMinus (lex cs))
      else if c = CHR ''*'' then
        (case cs of
           [] \<Rightarrow> Some [TStar]
         | d # ds \<Rightarrow> if d = CHR ''*'' then cons_token TPow (lex ds) else cons_token TStar (lex cs))
      else if c = CHR ''('' then cons_token TLParen (lex cs)
      else if c = CHR '')'' then cons_token TRParen (lex cs)
      else if is_digit c \<or> (c = CHR ''.'' \<and> cs \<noteq> [] \<and> is_digit (hd cs)) then
        (case scan_number c cs of (v, r) \<Rightarrow> cons_token (TNum v) (lex r))
      else if c = CHR ''.'' then cons_token TDot (lex cs)
      else None)"
  by pat_completeness auto
termination
proof -
  have comment: "length r < length s" if "close_comment s = Some r" for s r
    using that by (induction s arbitrary: r rule: close_comment.induct) (auto split: if_splits)
  have suffix: "length (dropWhile P (tl (dropWhile Q xs))) \<le> length xs"
    for P Q :: "char \<Rightarrow> bool" and xs
  proof -
    have "length (dropWhile P (tl (dropWhile Q xs))) \<le> length (tl (dropWhile Q xs))"
      by (rule length_dropWhile_le)
    also have "\<dots> \<le> length (dropWhile Q xs)"
      by simp
    also have "\<dots> \<le> length xs"
      by (rule length_dropWhile_le)
    finally show ?thesis .
  qed
  have number: "length r < Suc (length cs)" if "(v, r) = scan_number c cs" for v r c cs
    using that
    by (simp add: scan_number_def Let_def less_Suc_eq_le length_dropWhile_le suffix
        split: if_splits)
  show ?thesis
    by (relation "measure length") (auto dest: comment number)
qed

text \<open>
  The expression grammar that remains over these tokens (ECMAScript, from
  AdditiveExpression down). The value is computed while parsing: the operators have no
  effect besides their value, and every failure, early or at run time, is an exception
  inside the try block of evaluateExpression. \<open>None\<close> stands for such an exception
  or for a result that is not a Number:
  \<^item> a \<open>/\<close> where an operand starts opens a regular expression literal; a program
    with one is rejected, throws, or yields NaN, a string with a \<open>/\<close> in it or the
    regular expression itself, and isFinite is false for each of them;
  \<^item> \<open>++\<close> and \<open>--\<close> have no assignable operand, and an operand followed by \<open>(\<close>
    is a call of a value that is not a function;
  \<^item> a unary \<open>+\<close> or \<open>-\<close> expression cannot be the base of \<open>**\<close>.

  The result of \<open>**\<close> (Number::exponentiate) is left to the implementation by the
  standard, so it is the parameter \<open>pw\<close>. A result paired with a token list is accepted
  only when that list is no longer than the input, which makes the recursion
  well-founded; \<open>parse_rest_shorter\<close> shows that this always holds, and
  \<open>parse_unguarded\<close> gives the equations without the test.
\<close>

function parse_primary :: "(jsnum \<Rightarrow> jsnum \<Rightarrow> jsnum) \<Rightarrow> token list \<Rightarrow> (jsnum \<times> token list) option"
  and parse_unary :: "(jsnum \<Rightarrow> jsnum \<Rightarrow> jsnum) \<Rightarrow> token list \<Rightarrow> (jsnum \<times> token list) option"
  and parse_exp :: "(jsnum \<Rightarrow> jsnum \<Rightarrow> jsnum) \<Rightarrow> token list \<Rightarrow> (jsnum \<times> token list) option"
  and mul_loop :: "(jsnum \<Rightarrow> jsnum \<Rightarrow> jsnum) \<Rightarrow> jsnum \<Rightarrow> token list \<Rightarrow> (jsnum \<times> token list) option"
  and parse_mul :: "(jsnum \<Rightarrow> jsnum \<Rightarrow> jsnum) \<Rightarrow> token list \<Rightarrow> (jsnum \<times> token list) option"
  and add_loop :: "(jsnum \<Rightarrow> jsnum \<Rightarrow> jsnum) \<Rightarrow> jsnum \<Rightarrow> token list \<Rightarrow> (jsnum \<times> token list) option"
  and parse_add :: "(jsnum \<Rightarrow> jsnum \<Rightarrow> jsnum) \<Rightarrow> token list \<Rightarrow> (jsnum \<times> token list) option"
where
  "parse_primary pw ts =
     (case ts of
        TNum v # r \<Rightarrow> Some (v, r)
      | TLParen # r \<Rightarrow>
          (case parse_add pw r of
             Some (v, TRParen # r') \<Rightarrow> Some (v, r')
           | _ \<Rightarrow> None)
      | _ \<Rightarrow> None)"
| "parse_unary pw ts =
     (case ts of
        TPlus # r \<Rightarrow> parse_unary pw r
      | TMinus # r \<Rightarrow> map_option (\<lambda>(v, r'). (js_neg v, r')) (parse_unary pw r)
      | _ \<Rightarrow> parse_primary pw ts)"
| "parse_exp pw ts =
     (case parse_unary pw ts of
        None \<Rightarrow> None
      | Some (v, r) \<Rightarrow>
          (case r of
             TPow # r' \<Rightarrow>
               if (ts \<noteq> [] \<and> (hd ts = TPlus \<or> hd ts = TMinus)) \<or> \<not> length r \<le> length ts
               then None
               else map_option (\<lambda>(w, r''). (pw v w, r'')) (parse_exp pw r')
           | _ \<Rightarrow> Some (v, r)))"
| "mul_loop pw v ts =
     (case ts of
        TStar # r \<Rightarrow>
          (case parse_exp pw r of
             None \<Rightarrow> None
           | Some (w, r') \<Rightarrow> if length r' \<le> length r then mul_loop pw (js_mul v w) r' else None)
      | TSlash # r \<Rightarrow>
          (case parse_exp pw r of
             None \<Rightarrow> None
           | Some (w, r') \<Rightarrow> if length r' \<le> length r then mul_loop pw (js_div v w) r' else None)
      | _ \<Rightarrow> Some (v, ts))"
| "parse_mul pw ts =
     (case parse_exp pw ts of
        None \<Rightarrow> None
      | Some (v, r) \<Rightarrow> if length r \<le> length ts then mul_loop pw v r else None)"
| "add_loop pw v ts =
     (case ts of
        TPlus # r \<Rightarrow>
          (case parse_mul pw r of
             None \<Rightarrow> None
           | Some (w, r') \<Rightarrow> if length r' \<le> length r then add_loop pw (js_add v w) r' else None)
      | TMinus # r \<Rightarrow>
          (case parse_mul pw r of
             None \<Rightarrow> None
           | Some (w, r') \<Rightarrow> if length r' \<le> length r then add_loop pw (js_sub v w) r' else None)
      | _ \<Rightarrow> Some (v, ts))"
| "parse_add pw ts =
     (case parse_mul pw ts of
        None \<Rightarrow> None
      | Some (v, r) \<Rightarrow> if length r \<le> length ts then add_loop pw v r else None)"
  by pat_completeness auto
termination
  by (relation "measures
        [\<lambda>x. case x of
               Inl (Inl (pw, ts)) \<Rightarrow> length ts
             | Inl (Inr (Inl (pw, ts))) \<Rightarrow> length ts
             | Inl (Inr (Inr (pw, ts))) \<Rightarrow> length ts
             | Inr (Inl (Inl (pw, v, ts))) \<Rightarrow> length ts
             | Inr (Inl (Inr (pw, ts))) \<Rightarrow> length ts
             | Inr (Inr (Inl (pw, v, ts))) \<Rightarrow> length ts
             | Inr (Inr (Inr (pw, ts))) \<Rightarrow> length ts,
         \<lambda>x. case x of
               Inl (Inl _) \<Rightarrow> 0
             | Inl (Inr (Inl _)) \<Rightarrow> 1
             | Inl (Inr (Inr _)) \<Rightarrow> 2
             | Inr (Inl (Inl _)) \<Rightarrow> 3
             | Inr (Inl (Inr _)) \<Rightarrow> 5
             | Inr (Inr (Inl _)) \<Rightarrow> 6
             | Inr (Inr (Inr _)) \<Rightarrow> 8]") auto

declare parse_primary.simps [simp del] parse_unary.simps [simp del] parse_exp.simps [simp del]
  mul_loop.simps [simp del] parse_mul.simps [simp del] add_loop.simps [simp del]
  parse_add.simps [simp del]

definition js_eval :: "(jsnum \<Rightarrow> jsnum \<Rightarrow> jsnum) \<Rightarrow> string \<Rightarrow> jsnum option" where
  "js_eval pw src =
     (case lex src of
        None \<Rightarrow> None
      | Some ts \<Rightarrow> (case parse_add pw ts of Some (v, []) \<Rightarrow> Some v | _ \<Rightarrow> None))"

section \<open>The calculation engine\<close>

definition valid_char :: "char \<Rightarrow> bool" where
  "valid_char c = (is_digit c \<or> c \<in> set ''+-*/.()'')"

text \<open>\<open>replace(/\<times>/g, '*').replace(/\<div>/g, '/')\<close> and its inverse for display.\<close>

definition to_calc_symbols :: "string \<Rightarrow> string" where
  "to_calc_symbols s =
     map (\<lambda>c. if c = glyph_times then CHR ''*'' else if c = glyph_div then CHR ''/'' else c) s"

definition to_display_symbols :: "string \<Rightarrow> string" where
  "to_display_symbols s =
     map (\<lambda>c. if c = CHR ''*'' then glyph_times else if c = CHR ''/'' then glyph_div else c) s"

definition evaluateExpression :: "(jsnum \<Rightarrow> jsnum \<Rightarrow> jsnum) \<Rightarrow> string \<Rightarrow> string" where
  "evaluateExpression pw expr =
     (let sanitized = filter (\<lambda>c. \<not> is_space c) expr
      in if sanitized = [] then ''0''
         else let sanitized = to_calc_symbols sanitized
              in if \<not> list_all valid_char sanitized then ''Error''
                 else (case js_eval pw sanitized of
                         None \<Rightarrow> ''Error''
                       | Some result \<Rightarrow>
                           if \<not> isFinite result then ''Error''
                           else if isInteger result then toString result
                           else toString (parseFloat (toFixed 10 result))))"

section \<open>State\<close>

text \<open>
  The module variables \<open>currentInput\<close>, \<open>expression\<close> and \<open>history\<close>, and the text of the
  display elements that the handlers write: \<open>displayExpression\<close>, \<open>displayResult\<close>,
  \<open>displayPreview\<close>, and the spans of \<open>expressionText\<close>.
\<close>

record entry =
  entry_expression :: string
  entry_result :: string
  entry_timestamp :: nat

text \<open>A span of the rendered expression: an operator or a number with its \<open>data-index\<close>
  and its \<open>data-op\<close> or \<open>data-value\<close>, or a span without data attributes.\<close>

datatype span = OperatorSpan nat string | NumberSpan nat string | PlainSpan string

record calc =
  currentInput :: string
  expression :: string
  history :: "entry list"
  displayExpression :: string
  displayResult :: string
  displayPreview :: string
  expressionText :: "span list"

definition MAX_HISTORY_ITEMS :: nat where
  "MAX_HISTORY_ITEMS = 100"

text \<open>An event handler runs to its end, or an exception leaves it with the assignments
  made so far.\<close>

datatype js_error = SyntaxError | OtherError

datatype outcome = Completed calc | Threw js_error calc

section \<open>History\<close>

text \<open>
  saveHistory: the truncation precedes \<open>localStorage.setItem\<close> inside the try block, so
  it takes effect whether or not the write throws; the stored text is not part of the state.
\<close>

definition saveHistory :: "calc \<Rightarrow> calc" where
  "saveHistory s =
     (if MAX_HISTORY_ITEMS < length (history s)
      then s\<lparr>history := take MAX_HISTORY_ITEMS (history s)\<rparr>
      else s)"

text \<open>addHistory; \<open>now\<close> is the value of \<open>Date.now()\<close>.\<close>

definition addHistory :: "nat \<Rightarrow> string \<Rightarrow> string \<Rightarrow> calc \<Rightarrow> calc" where
  "addHistory now expr result s =
     (case history s of
        lastItem # _ \<Rightarrow>
          if entry_expression lastItem = expr \<and> entry_result lastItem = result then s
          else saveHistory
                 (s\<lparr>history := \<lparr>entry_expression = expr, entry_result = result,
                                 entry_timestamp = now\<rparr> # history s\<rparr>)
      | [] \<Rightarrow>
          saveHistory
            (s\<lparr>history := \<lparr>entry_expression = expr, entry_result = result,
                            entry_timestamp = now\<rparr> # history s\<rparr>))"

definition clearAllHistory :: "calc \<Rightarrow> calc" where
  "clearAllHistory s = saveHistory (s\<lparr>history := []\<rparr>)"

text \<open>deleteHistoryItem: \<open>history.splice(index, 1)\<close>, where a negative index counts from
  the end.\<close>

definition deleteHistoryItem :: "int \<Rightarrow> calc \<Rightarrow> calc" where
  "deleteHistoryItem index s =
     (let len = int (length (history s));
          start = (if index < 0 then max (len + index) 0 else min index len)
      in saveHistory (s\<lparr>history := take (nat start) (history s) @ drop (nat start + 1) (history s)\<rparr>))"

section \<open>Display\<close>

definition is_operator :: "char \<Rightarrow> bool" where
  "is_operator c = (c \<in> set ''+-*/'')"

text \<open>The test \<open>/^\d+(\.\d+)?$/\<close>.\<close>

definition is_number_text :: "string \<Rightarrow> bool" where
  "is_number_text t =
     (let ip = takeWhile is_digit t; r = dropWhile is_digit t
      in ip \<noteq> [] \<and> (r = [] \<or> (hd r = CHR ''.'' \<and> tl r \<noteq> [] \<and> list_all is_digit (tl r))))"

text \<open>\<open>split(/([+\-\<times>\<div>()])/g)\<close>: the pieces between separators, empty ones included,
  alternating with the separators themselves.\<close>

definition is_separator :: "char \<Rightarrow> bool" where
  "is_separator c = (c \<in> set ''+-()'' \<or> c = glyph_times \<or> c = glyph_div)"

fun split_tokens :: "string \<Rightarrow> string \<Rightarrow> string list" where
  "split_tokens cur [] = [cur]"
| "split_tokens cur (c # cs) =
     (if is_separator c then cur # [c] # split_tokens [] cs else split_tokens (cur @ [c]) cs)"

definition render_token :: "nat \<times> string \<Rightarrow> span" where
  "render_token it =
     (case it of (index, token) \<Rightarrow>
        if token \<in> {''+'', ''-'', [glyph_times], [glyph_div]} then OperatorSpan index token
        else if is_number_text token then NumberSpan index token
        else PlainSpan token)"

definition renderExpressionHTML :: "string \<Rightarrow> span list" where
  "renderExpressionHTML expr =
     (if expr = [] then []
      else let displayExpr = to_display_symbols expr;
               tokens = filter (\<lambda>t. t \<noteq> []) (split_tokens [] displayExpr)
           in map render_token (zip [0..<length tokens] tokens))"

definition previewResult :: "(jsnum \<Rightarrow> jsnum \<Rightarrow> jsnum) \<Rightarrow> calc \<Rightarrow> string" where
  "previewResult pw s =
     (if currentInput s \<noteq> [] \<and> is_number_text (currentInput s) then
        (let result = evaluateExpression pw (expression s @ currentInput s)
         in if result \<noteq> ''Error'' \<and> result \<noteq> currentInput s then ''= '' @ result else [])
      else if currentInput s = [] \<and> expression s \<noteq> [] then
        (if is_operator (last (expression s)) then
           (let completeExpr = butlast (expression s)
            in if completeExpr \<noteq> [] then
                 (let result = evaluateExpression pw completeExpr
                  in if result \<noteq> ''Error'' then ''= '' @ result else [])
               else [])
         else [])
      else [])"

definition updateDisplay :: "(jsnum \<Rightarrow> jsnum \<Rightarrow> jsnum) \<Rightarrow> calc \<Rightarrow> calc" where
  "updateDisplay pw s =
     s\<lparr>expressionText := renderExpressionHTML (expression s),
       displayExpression := to_display_symbols (expression s),
       displayPreview := previewResult pw s,
       displayResult := (if currentInput s = [] then ''0'' else currentInput s)\<rparr>"

text \<open>loadFromHistory: \<open>history[index]\<close> is undefined outside the log.\<close>

definition loadFromHistory :: "(jsnum \<Rightarrow> jsnum \<Rightarrow> jsnum) \<Rightarrow> int \<Rightarrow> calc \<Rightarrow> calc" where
  "loadFromHistory pw index s =
     (if 0 \<le> index \<and> index < int (length (history s)) then
        updateDisplay pw
          (s\<lparr>expression := entry_expression (history s ! nat index), currentInput := []\<rparr>)
      else s)"

section \<open>Event handlers\<close>

text \<open>handleNumber: \<open>digit\<close> is the \<open>data-value\<close> of a number button or the key pressed.\<close>

definition handleNumber :: "(jsnum \<Rightarrow> jsnum \<Rightarrow> jsnum) \<Rightarrow> string \<Rightarrow> calc \<Rightarrow> calc" where
  "handleNumber pw digit s =
     (if 16 \<le> length (currentInput s) then s
      else if digit = ''.'' \<and> CHR ''.'' \<in> set (currentInput s) then s
      else if digit = ''.'' \<and> currentInput s = [] then updateDisplay pw (s\<lparr>currentInput := ''0.''\<rparr>)
      else if digit = ''0'' \<and> currentInput s = ''0'' then s
      else if currentInput s = ''0'' \<and> digit \<noteq> ''.'' then updateDisplay pw (s\<lparr>currentInput := digit\<rparr>)
      else updateDisplay pw (s\<lparr>currentInput := currentInput s @ digit\<rparr>))"

text \<open>
  handleOperator: \<open>opMap[operator] || operator\<close>. The operator is the \<open>data-operator\<close> of
  a button or one of the strings \<open>+ - \<times> \<div>\<close> sent by the keyboard handler; a string
  that is not a key of \<open>opMap\<close> stands for itself.
\<close>

definition opMap :: "string \<Rightarrow> string" where
  "opMap operator =
     (if operator = [glyph_times] then ''*''
      else if operator = [glyph_div] then ''/''
      else operator)"

definition handleOperator :: "(jsnum \<Rightarrow> jsnum \<Rightarrow> jsnum) \<Rightarrow> string \<Rightarrow> calc \<Rightarrow> calc" where
  "handleOperator pw operator s =
     (let calcOperator = opMap operator
      in if currentInput s \<noteq> [] then
           updateDisplay pw
             (s\<lparr>expression := expression s @ currentInput s @ calcOperator, currentInput := []\<rparr>)
         else if expression s = [] then s
         else updateDisplay pw (s\<lparr>expression := expression s @ calcOperator\<rparr>))"

text \<open>handleEquals does not call updateDisplay: it writes \<open>displayExpression\<close> and
  \<open>displayResult\<close> itself.\<close>

definition handleEquals :: "(jsnum \<Rightarrow> jsnum \<Rightarrow> jsnum) \<Rightarrow> nat \<Rightarrow> calc \<Rightarrow> calc" where
  "handleEquals pw now s =
     (let s1 = (if currentInput s \<noteq> []
                then s\<lparr>expression := expression s @ currentInput s, currentInput := []\<rparr>
                else s)
      in if expression s1 = [] then s1\<lparr>displayResult := ''0''\<rparr>
         else let result = evaluateExpression pw (expression s1);
                  s2 = s1\<lparr>displayExpression := to_display_symbols (expression s1),
                          displayResult := result\<rparr>;
                  s3 = (if result \<noteq> ''Error''
                        then addHistory now (to_display_symbols (expression s2)) result s2
                        else s2)
              in s3\<lparr>expression := [],
                    currentInput := (if result \<noteq> ''Error'' then result else [])\<rparr>)"


text \<open>
  handleBackspace. \<open>remaining.match(/[+\-*/]+$/)\<close> finds the run of operators at the
  end of \<open>remaining\<close>, if there is one; \<open>lastIndexOf\<close> and \<open>substring\<close> are the string
  methods.
\<close>

definition match_trailing_operators :: "string \<Rightarrow> string option" where
  "match_trailing_operators t =
     (let run = rev (takeWhile is_operator (rev t)) in if run = [] then None else Some run)"

definition lastIndexOf :: "string \<Rightarrow> string \<Rightarrow> int" where
  "lastIndexOf t m =
     (case filter (\<lambda>i. take (length m) (drop i t) = m) (rev [0..<Suc (length t) - length m]) of
        [] \<Rightarrow> - 1
      | i # _ \<Rightarrow> int i)"

definition substring :: "string \<Rightarrow> int \<Rightarrow> int \<Rightarrow> string" where
  "substring t a b =
     (let a' = nat (min (max a 0) (int (length t)));
          b' = nat (min (max b 0) (int (length t)))
      in take (max a' b' - min a' b') (drop (min a' b') t))"

definition substring_from :: "string \<Rightarrow> int \<Rightarrow> string" where
  "substring_from t a = substring t a (int (length t))"

definition handleBackspace :: "(jsnum \<Rightarrow> jsnum \<Rightarrow> jsnum) \<Rightarrow> calc \<Rightarrow> calc" where
  "handleBackspace pw s =
     (if currentInput s \<noteq> [] then updateDisplay pw (s\<lparr>currentInput := butlast (currentInput s)\<rparr>)
      else if expression s \<noteq> [] then
        (let lastChar = [last (expression s)]
         in if lastChar \<in> {''+'', ''-'', ''*'', ''/''} then
              updateDisplay pw (s\<lparr>expression := butlast (expression s)\<rparr>)
            else
              (let remaining = butlast (expression s)
               in case match_trailing_operators remaining of
                    Some lastOpMatch \<Rightarrow>
                      (let lastOpIndex = lastIndexOf remaining lastOpMatch;
                           numPart = substring_from remaining (lastOpIndex + 1) @ lastChar
                       in updateDisplay pw
                            (s\<lparr>currentInput := numPart,
                               expression := substring remaining 0 (lastOpIndex + 1)\<rparr>))
                  | None \<Rightarrow>
                      updateDisplay pw (s\<lparr>currentInput := remaining @ lastChar, expression := []\<rparr>)))
      else s)"

definition handlePercent :: "(jsnum \<Rightarrow> jsnum \<Rightarrow> jsnum) \<Rightarrow> calc \<Rightarrow> calc" where
  "handlePercent pw s =
     (if currentInput s \<noteq> [] then
        (let num = parseFloat (currentInput s)
         in if \<not> isNaN num
            then updateDisplay pw (s\<lparr>currentInput := toString (js_div num (to_double 100))\<rparr>)
            else s)
      else s)"

section \<open>Editing the rendered expression\<close>

text \<open>handleOperatorClick: \<open>index\<close> is the \<open>data-index\<close> of the clicked span.\<close>

definition opCycle :: "string list" where
  "opCycle = [''+'', ''-'', [glyph_times], [glyph_div]]"

fun indexOf :: "'a list \<Rightarrow> 'a \<Rightarrow> nat option" where
  "indexOf [] x = None"
| "indexOf (y # ys) x = (if y = x then Some 0 else map_option Suc (indexOf ys x))"

text \<open>The loop over \<open>expression\<close>: \<open>opCount\<close> counts the operator characters seen.\<close>

fun replace_operator :: "string \<Rightarrow> int \<Rightarrow> int \<Rightarrow> string \<Rightarrow> string" where
  "replace_operator newCalcOp index opCount [] = []"
| "replace_operator newCalcOp index opCount (c # cs) =
     (if is_operator c then
        (if opCount = index then newCalcOp @ replace_operator newCalcOp index (opCount + 1) cs
         else c # replace_operator newCalcOp index (opCount + 1) cs)
      else c # replace_operator newCalcOp index opCount cs)"

definition handleOperatorClick :: "(jsnum \<Rightarrow> jsnum \<Rightarrow> jsnum) \<Rightarrow> string \<Rightarrow> int \<Rightarrow> calc \<Rightarrow> calc" where
  "handleOperatorClick pw oldOp index s =
     (case indexOf opCycle oldOp of
        None \<Rightarrow> s
      | Some currentIndex \<Rightarrow>
          (let newOp = opCycle ! ((currentIndex + 1) mod length opCycle);
               newCalcOp = opMap newOp
           in updateDisplay pw (s\<lparr>expression := replace_operator newCalcOp index 0 (expression s)\<rparr>)))"

text \<open>
  handleNumberClick builds its pattern from string literals, in which \<open>\-\<close> is the
  character \<open>-\<close>, so the pattern handed to \<open>new RegExp\<close> is
  \<open>^([+-*/]*)(\<close>value\<open>)([+-*/]*)$\<close>, with the first point of the value escaped.

  The RegExp constructor throws a SyntaxError for a character class with a range whose
  bounds are out of order. \<open>range_out_of_order\<close> looks for such a range among the classes
  that come before the first backslash of a pattern, where every class atom is a single
  character; it makes no statement about the rest. What the host does with a pattern
  that passes is the parameter \<open>rxm\<close>: an exception, or the groups 1 and 3 of the match
  of the subject, if any.
\<close>

fun range_out_of_order :: "bool \<Rightarrow> string \<Rightarrow> bool" where
  "range_out_of_order in_class [] = False"
| "range_out_of_order False (c # cs) =
     (if c = CHR 0x5C then False
      else if c = CHR ''['' then
        (case cs of
           [] \<Rightarrow> False
         | d # r \<Rightarrow> if d = CHR ''^'' then range_out_of_order True r else range_out_of_order True cs)
      else range_out_of_order False cs)"
| "range_out_of_order True (c # cs) =
     (if c = CHR 0x5C then False
      else if c = CHR '']'' then range_out_of_order False cs
      else (case cs of
              d # e # r \<Rightarrow>
                if d = CHR ''-'' \<and> e \<noteq> CHR '']'' then
                  (if e = CHR 0x5C then False
                   else if (of_char e :: nat) < of_char c then True
                   else range_out_of_order True r)
                else range_out_of_order True cs
            | _ \<Rightarrow> range_out_of_order True cs))"

text \<open>\<open>value.replace('.', '\\.')\<close>: the first point becomes backslash, point.\<close>

fun escape_first_dot :: "string \<Rightarrow> string" where
  "escape_first_dot [] = []"
| "escape_first_dot (c # cs) =
     (if c = CHR ''.'' then CHR 0x5C # CHR ''.'' # cs else c # escape_first_dot cs)"

definition number_pattern :: "string \<Rightarrow> string" where
  "number_pattern v = ''^([+-*/]*)('' @ escape_first_dot v @ '')([+-*/]*)$''"

definition handleNumberClick ::
  "(string \<Rightarrow> string \<Rightarrow> js_error + (string \<times> string) option) \<Rightarrow>
   (jsnum \<Rightarrow> jsnum \<Rightarrow> jsnum) \<Rightarrow> string \<Rightarrow> int \<Rightarrow> calc \<Rightarrow> outcome" where
  "handleNumberClick rxm pw v index s =
     (let s1 = (if currentInput s \<noteq> [] then s\<lparr>expression := expression s @ currentInput s\<rparr> else s)
      in if range_out_of_order False (number_pattern v) then Threw SyntaxError s1
         else (case rxm (number_pattern v) (expression s1) of
                 Inl e \<Rightarrow> Threw e s1
               | Inr m \<Rightarrow>
                   (let s2 = (case m of
                                Some (g1, g3) \<Rightarrow> s1\<lparr>expression := g1 @ g3\<rparr>
                              | None \<Rightarrow> s1);
                        s3 = s2\<lparr>expression := dropWhile is_operator (expression s2)\<rparr>
                    in Completed (updateDisplay pw (s3\<lparr>currentInput := v\<rparr>)))))"

text \<open>The click listeners that updateDisplay attaches to the spans of \<open>expressionText\<close>.\<close>

definition click_span ::
  "(string \<Rightarrow> string \<Rightarrow> js_error + (string \<times> string) option) \<Rightarrow>
   (jsnum \<Rightarrow> jsnum \<Rightarrow> jsnum) \<Rightarrow> span \<Rightarrow> calc \<Rightarrow> outcome" where
  "click_span rxm pw sp s =
     (case sp of
        OperatorSpan index op \<Rightarrow> Completed (handleOperatorClick pw op (int index) s)
      | NumberSpan index v \<Rightarrow> handleNumberClick rxm pw v (int index) s
      | PlainSpan t \<Rightarrow> Completed s)"

section \<open>Loading the history\<close>

text \<open>
  \<open>localStorage.getItem\<close> throws, returns null, or returns the stored text. \<open>JSON.parse\<close>
  is the parameter \<open>parse\<close>, \<open>None\<close> for a SyntaxError. loadHistory assigns whatever value
  the parse returns, so the new value of \<open>history\<close> is a JSON value.
\<close>

datatype json =
  JNull | JBool bool | JNumber jsnum | JString string | JArray "json list"
  | JObject "(string \<times> json) list"

datatype storage_read = ReadThrows | Absent | Stored string

definition loadHistory :: "(string \<Rightarrow> json option) \<Rightarrow> storage_read \<Rightarrow> json \<Rightarrow> json" where
  "loadHistory parse item history_before =
     (case item of
        ReadThrows \<Rightarrow> JArray []
      | Absent \<Rightarrow> history_before
      | Stored stored \<Rightarrow>
          if stored = [] then history_before
          else (case parse stored of None \<Rightarrow> JArray [] | Some v \<Rightarrow> v))"

section \<open>Scenarios\<close>

text \<open>The state in which a handler leaves the variables, however it ends.\<close>

fun state_of :: "outcome \<Rightarrow> calc" where
  "state_of (Completed s) = s"
| "state_of (Threw e s) = s"

text \<open>The state after \<open>init\<close> when nothing is stored: empty variables, and the display
  that updateDisplay derives from them.\<close>

definition init_state :: calc where
  "init_state =
     \<lparr>currentInput = [], expression = [], history = [], displayExpression = [],
      displayResult = ''0'', displayPreview = [], expressionText = []\<rparr>"

text \<open>The key sequences 1, 2, +, 3 and 5, \<open>\<div>\<close>, 0.\<close>

definition enter_12_plus_3 :: "(jsnum \<Rightarrow> jsnum \<Rightarrow> jsnum) \<Rightarrow> calc \<Rightarrow> calc" where
  "enter_12_plus_3 pw s =
     handleNumber pw ''3'' (handleOperator pw ''+'' (handleNumber pw ''2'' (handleNumber pw ''1'' s)))"

definition enter_5_div_0 :: "(jsnum \<Rightarrow> jsnum \<Rightarrow> jsnum) \<Rightarrow> calc \<Rightarrow> calc" where
  "enter_5_div_0 pw s =
     handleNumber pw ''0'' (handleOperator pw [glyph_div] (handleNumber pw ''5'' s))"

text \<open>A run of addHistory calls, each calculation given as (\<open>Date.now()\<close>, expression,
  result), and the entry that a call creates.\<close>

definition entry_of :: "nat \<times> string \<times> string \<Rightarrow> entry" where
  "entry_of c =
     (case c of (now, e, r) \<Rightarrow> \<lparr>entry_expression = e, entry_result = r, entry_timestamp = now\<rparr>)"

definition add_all :: "(nat \<times> string \<times> string) list \<Rightarrow> calc \<Rightarrow> calc" where
  "add_all cs s = fold (\<lambda>c. case c of (now, e, r) \<Rightarrow> addHistory now e r) cs s"

text \<open>The test \<open>^\d*\.?\d*$\<close> on currentInput, and the keys that handleNumber
  receives from the number buttons and the keyboard.\<close>

definition matches_input_pattern :: "string \<Rightarrow> bool" where
  "matches_input_pattern t =
     (let r = dropWhile is_digit t
      in r = [] \<or> (hd r = CHR ''.'' \<and> list_all is_digit (tl r)))"


section \<open>Fixtures for closed examples\<close>

text \<open>A stand-in for Number::exponentiate; none of the examples contains \<open>**\<close>.\<close>

definition host_pow :: "jsnum \<Rightarrow> jsnum \<Rightarrow> jsnum" where
  "host_pow x y = NaN"

text \<open>A \<open>JSON.parse\<close> for closed examples: it knows the text \<open>null\<close> only.\<close>

definition parse_null :: "string \<Rightarrow> json option" where
  "parse_null t = (if t = ''null'' then Some JNull else None)"

text \<open>101 calculations with different expressions.\<close>

definition calculations :: "(nat \<times> string \<times> string) list" where
  "calculations = map (\<lambda>n. (n, replicate n CHR ''1'', ''1'')) [0..<101]"

section \<open>Properties\<close>

subsection \<open>The parser consumes its input\<close>

lemma parse_rest_shorter:
  fixes pw :: "jsnum \<Rightarrow> jsnum \<Rightarrow> jsnum"
  shows "parse_primary pw ts = Some (v, r) \<Longrightarrow> length r < length ts"
    and "parse_unary pw ts = Some (v, r) \<Longrightarrow> length r < length ts"
    and "parse_exp pw ts = Some (v, r) \<Longrightarrow> length r < length ts"
    and "mul_loop pw a ts = Some (v, r) \<Longrightarrow> length r \<le> length ts"
    and "parse_mul pw ts = Some (v, r) \<Longrightarrow> length r < length ts"
    and "add_loop pw a ts = Some (v, r) \<Longrightarrow> length r \<le> length ts"
    and "parse_add pw ts = Some (v, r) \<Longrightarrow> length r < length ts"
proof (induction pw ts and pw ts and pw ts and pw a ts and pw ts and pw a ts and pw ts
    arbitrary: v r and v r and v r and v r and v r and v r and v r
    rule: parse_primary_parse_unary_parse_exp_mul_loop_parse_mul_add_loop_parse_add.induct)
  case (1 pw ts)
  from "1.prems" show ?case
    by (subst (asm) parse_primary.simps)
       (auto split: list.splits token.splits option.splits dest!: "1.IH")
next
  case (2 pw ts)
  show ?case
  proof (cases ts)
    case Nil
    with "2.prems" "2.IH"(1) show ?thesis
      by (simp add: parse_unary.simps)
  next
    case (Cons t rest)
    show ?thesis
    proof (cases "t = TPlus \<or> t = TMinus")
      case True
      with "2.prems" Cons obtain w where "parse_unary pw rest = Some (w, r)"
        by (subst (asm) parse_unary.simps) auto
      with True Cons "2.IH"(3,4) have "length r < length rest"
        by blast
      with Cons show ?thesis
        by simp
    next
      case False
      with "2.prems" Cons have "parse_primary pw ts = Some (v, r)"
        by (subst (asm) parse_unary.simps) (cases t; simp)
      with False Cons "2.IH" show ?thesis
        by (cases t) auto
    qed
  qed
next
  case (3 pw ts)
  from "3.prems" obtain v0 r0 where u: "parse_unary pw ts = Some (v0, r0)"
    by (subst (asm) parse_exp.simps) (auto split: option.splits)
  then have l0: "length r0 < length ts"
    by (rule "3.IH"(1))
  show ?case
  proof (cases "\<exists>r'. r0 = TPow # r'")
    case True
    then obtain r' where r0: "r0 = TPow # r'"
      by blast
    with "3.prems" u obtain w
      where guard: "\<not> (ts \<noteq> [] \<and> (hd ts = TPlus \<or> hd ts = TMinus) \<or> \<not> length r0 \<le> length ts)"
        and rec: "parse_exp pw r' = Some (w, r)"
      by (subst (asm) parse_exp.simps) (auto split: if_splits)
    from "3.IH"(2) [OF u refl r0 refl guard rec] have "length r < length r'" .
    with l0 r0 show ?thesis
      by simp
  next
    case False
    with "3.prems" u have "r = r0"
      by (subst (asm) parse_exp.simps) (auto split: list.splits token.splits)
    with l0 show ?thesis
      by simp
  qed
next
  case (4 pw a ts)
  show ?case
  proof (cases "\<exists>rest. ts = TStar # rest \<or> ts = TSlash # rest")
    case True
    then obtain rest where ts: "ts = TStar # rest \<or> ts = TSlash # rest"
      by blast
    with "4.prems" obtain w r' where e: "parse_exp pw rest = Some (w, r')"
        and g: "length r' \<le> length rest"
        and l: "mul_loop pw (if ts = TStar # rest then js_mul a w else js_div a w) r' = Some (v, r)"
      by (subst (asm) mul_loop.simps) (auto split: option.splits if_splits)
    from ts e g l "4.IH"(2,4) have "length r \<le> length r'"
      by (auto split: if_splits)
    with g ts show ?thesis
      by auto
  next
    case False
    with "4.prems" have "r = ts"
      by (subst (asm) mul_loop.simps) (auto split: list.splits token.splits)
    then show ?thesis
      by simp
  qed
next
  case (5 pw ts)
  from "5.prems" obtain v0 r0 where e: "parse_exp pw ts = Some (v0, r0)"
      and g: "length r0 \<le> length ts" and l: "mul_loop pw v0 r0 = Some (v, r)"
    by (subst (asm) parse_mul.simps) (auto split: option.splits if_splits)
  from "5.IH"(1) [OF e] "5.IH"(2) [OF e refl g l] show ?case
    by simp
next
  case (6 pw a ts)
  show ?case
  proof (cases "\<exists>rest. ts = TPlus # rest \<or> ts = TMinus # rest")
    case True
    then obtain rest where ts: "ts = TPlus # rest \<or> ts = TMinus # rest"
      by blast
    with "6.prems" obtain w r' where e: "parse_mul pw rest = Some (w, r')"
        and g: "length r' \<le> length rest"
        and l: "add_loop pw (if ts = TPlus # rest then js_add a w else js_sub a w) r' = Some (v, r)"
      by (subst (asm) add_loop.simps) (auto split: option.splits if_splits)
    from ts e g l "6.IH"(2,4) have "length r \<le> length r'"
      by (auto split: if_splits)
    with g ts show ?thesis
      by auto
  next
    case False
    with "6.prems" have "r = ts"
      by (subst (asm) add_loop.simps) (auto split: list.splits token.splits)
    then show ?thesis
      by simp
  qed
next
  case (7 pw ts)
  from "7.prems" obtain v0 r0 where e: "parse_mul pw ts = Some (v0, r0)"
      and g: "length r0 \<le> length ts" and l: "add_loop pw v0 r0 = Some (v, r)"
    by (subst (asm) parse_add.simps) (auto split: option.splits if_splits)
  from "7.IH"(1) [OF e] "7.IH"(2) [OF e refl g l] show ?case
    by simp
qed


lemma parse_unguarded:
  fixes pw :: "jsnum \<Rightarrow> jsnum \<Rightarrow> jsnum"
  shows "parse_exp pw ts =
           (case parse_unary pw ts of
              None \<Rightarrow> None
            | Some (v, r) \<Rightarrow>
                (case r of
                   TPow # r' \<Rightarrow>
                     if ts \<noteq> [] \<and> (hd ts = TPlus \<or> hd ts = TMinus) then None
                     else map_option (\<lambda>(w, r''). (pw v w, r'')) (parse_exp pw r')
                 | _ \<Rightarrow> Some (v, r)))"
    and "mul_loop pw a ts =
           (case ts of
              TStar # r \<Rightarrow>
                (case parse_exp pw r of None \<Rightarrow> None | Some (w, r') \<Rightarrow> mul_loop pw (js_mul a w) r')
            | TSlash # r \<Rightarrow>
                (case parse_exp pw r of None \<Rightarrow> None | Some (w, r') \<Rightarrow> mul_loop pw (js_div a w) r')
            | _ \<Rightarrow> Some (a, ts))"
    and "parse_mul pw ts =
           (case parse_exp pw ts of None \<Rightarrow> None | Some (v, r) \<Rightarrow> mul_loop pw v r)"
    and "add_loop pw a ts =
           (case ts of
              TPlus # r \<Rightarrow>
                (case parse_mul pw r of None \<Rightarrow> None | Some (w, r') \<Rightarrow> add_loop pw (js_add a w) r')
            | TMinus # r \<Rightarrow>
                (case parse_mul pw r of None \<Rightarrow> None | Some (w, r') \<Rightarrow> add_loop pw (js_sub a w) r')
            | _ \<Rightarrow> Some (a, ts))"
    and "parse_add pw ts =
           (case parse_mul pw ts of None \<Rightarrow> None | Some (v, r) \<Rightarrow> add_loop pw v r)"
proof -
  have u: "length r \<le> length ts" if "parse_unary pw ts = Some (v, r)" for ts v r
    using parse_rest_shorter(2) [OF that] by simp
  have e: "length r \<le> length ts" if "parse_exp pw ts = Some (v, r)" for ts v r
    using parse_rest_shorter(3) [OF that] by simp
  have m: "length r \<le> length ts" if "parse_mul pw ts = Some (v, r)" for ts v r
    using parse_rest_shorter(5) [OF that] by simp
  show "parse_exp pw ts =
           (case parse_unary pw ts of
              None \<Rightarrow> None
            | Some (v, r) \<Rightarrow>
                (case r of
                   TPow # r' \<Rightarrow>
                     if ts \<noteq> [] \<and> (hd ts = TPlus \<or> hd ts = TMinus) then None
                     else map_option (\<lambda>(w, r''). (pw v w, r'')) (parse_exp pw r')
                 | _ \<Rightarrow> Some (v, r)))"
    by (subst parse_exp.simps) (auto split: option.splits list.splits token.splits dest: u)
  show "mul_loop pw a ts =
           (case ts of
              TStar # r \<Rightarrow>
                (case parse_exp pw r of None \<Rightarrow> None | Some (w, r') \<Rightarrow> mul_loop pw (js_mul a w) r')
            | TSlash # r \<Rightarrow>
                (case parse_exp pw r of None \<Rightarrow> None | Some (w, r') \<Rightarrow> mul_loop pw (js_div a w) r')
            | _ \<Rightarrow> Some (a, ts))"
    by (subst mul_loop.simps) (auto split: option.splits list.splits token.splits dest: e)
  show "parse_mul pw ts =
           (case parse_exp pw ts of None \<Rightarrow> None | Some (v, r) \<Rightarrow> mul_loop pw v r)"
    by (subst parse_mul.simps) (auto split: option.splits dest: e)
  show "add_loop pw a ts =
           (case ts of
              TPlus # r \<Rightarrow>
                (case parse_mul pw r of None \<Rightarrow> None | Some (w, r') \<Rightarrow> add_loop pw (js_add a w) r')
            | TMinus # r \<Rightarrow>
                (case parse_mul pw r of None \<Rightarrow> None | Some (w, r') \<Rightarrow> add_loop pw (js_sub a w) r')
            | _ \<Rightarrow> Some (a, ts))"
    by (subst add_loop.simps) (auto split: option.splits list.splits token.splits dest: m)
  show "parse_add pw ts =
           (case parse_mul pw ts of None \<Rightarrow> None | Some (v, r) \<Rightarrow> add_loop pw v r)"
    by (subst parse_add.simps) (auto split: option.splits dest: m)
qed

subsection \<open>What updateDisplay leaves alone\<close>

lemma updateDisplay_currentInput [simp]: "currentInput (updateDisplay pw s) = currentInput s"
  by (simp add: updateDisplay_def)

lemma updateDisplay_expression [simp]: "expression (updateDisplay pw s) = expression s"
  by (simp add: updateDisplay_def)

lemma updateDisplay_history [simp]: "history (updateDisplay pw s) = history s"
  by (simp add: updateDisplay_def)

subsection \<open>History recall\<close>

text \<open>
  C10. For every index with no corresponding history entry, negative or at least the
  length of the log, loadFromHistory leaves the whole state as it was: expression,
  currentInput, the history log and the display.
\<close>

theorem loadFromHistory_out_of_range:
  "index < 0 \<or> int (length (history s)) \<le> index \<Longrightarrow> loadFromHistory pw index s = s"
  by (auto simp: loadFromHistory_def)

theorem loadFromHistory_out_of_range_witness:
  "((0::int) < 0 \<or> int (length (history init_state)) \<le> 0)
   \<and> loadFromHistory host_pow 0 init_state = init_state"
proof -
  have h: "(0::int) < 0 \<or> int (length (history init_state)) \<le> 0"
    by (simp add: init_state_def)
  from h loadFromHistory_out_of_range [OF h, of host_pow] show ?thesis
    by simp
qed

lemma updateDisplay_expressionText [simp]:
  "expressionText (updateDisplay pw s) = renderExpressionHTML (expression s)"
  by (simp add: updateDisplay_def)

lemma updateDisplay_displayResult [simp]:
  "displayResult (updateDisplay pw s) = (if currentInput s = [] then ''0'' else currentInput s)"
  by (simp add: updateDisplay_def)

subsection \<open>Entering 1, 2, +, 3\<close>

lemma entered_12_plus_3:
  fixes pw :: "jsnum \<Rightarrow> jsnum \<Rightarrow> jsnum" and s :: calc
  assumes "currentInput s = []" and "expression s = []"
  defines "t \<equiv> handleNumber pw ''3'' (handleOperator pw ''+''
                 (handleNumber pw ''2'' (handleNumber pw ''1'' s)))"
  shows "currentInput t = ''3''" and "expression t = ''12+''" and "history t = history s"
    and "expressionText t = renderExpressionHTML ''12+''"
  using assms(1,2) unfolding t_def
  by (simp_all add: handleNumber_def handleOperator_def opMap_def glyph_times_def
      glyph_div_def Let_def)

lemma render_12_plus:
  "renderExpressionHTML ''12+'' = [NumberSpan 0 ''12'', OperatorSpan 1 ''+'']"
  by code_simp

lemma render_12_plus_3:
  "renderExpressionHTML ''12+3'' = [NumberSpan 0 ''12'', OperatorSpan 1 ''+'', NumberSpan 2 ''3'']"
  by code_simp

subsection \<open>Clicking a number of the expression\<close>

lemma number_pattern_rejected: "range_out_of_order False (number_pattern v)"
  by (simp add: number_pattern_def)

text \<open>
  C6. handleNumberClick is to append a pending currentInput to expression, remove the
  clicked number from expression, strip leading operators and make the number the new
  currentInput. In the code the pattern given to \<open>new RegExp\<close> has the class \<open>[+-*/]\<close>,
  whose range from \<open>+\<close> to \<open>*\<close> is out of order: for every value, index and state the
  constructor throws a SyntaxError after the pending input has been appended, so nothing
  is removed from expression and currentInput is not set to the value.
\<close>

theorem handleNumberClick_throws:
  "handleNumberClick rxm pw v index s =
     Threw SyntaxError
       (if currentInput s \<noteq> [] then s\<lparr>expression := expression s @ currentInput s\<rparr> else s)"
  by (simp add: handleNumberClick_def number_pattern_rejected Let_def)

subsection \<open>Backspace on the expression\<close>

text \<open>
  C2. With currentInput empty and expression ending in a digit, handleBackspace is to move
  the trailing number without its last character into currentInput and to cut expression
  after the preceding operator. In the code nothing is removed, and the operator is looked
  for only directly before the last character: from \<open>12+34\<close> the whole text \<open>12+34\<close>
  becomes currentInput and expression becomes empty (the claim gives \<open>3\<close> and \<open>12+\<close>);
  from \<open>12+3\<close> currentInput becomes \<open>3\<close> (the claim gives the empty string).
\<close>

theorem handleBackspace_moves_whole_text:
  "currentInput (handleBackspace pw (init_state\<lparr>expression := ''12+34''\<rparr>)) = ''12+34''
   \<and> expression (handleBackspace pw (init_state\<lparr>expression := ''12+34''\<rparr>)) = []
   \<and> currentInput (handleBackspace pw (init_state\<lparr>expression := ''12+3''\<rparr>)) = ''3''
   \<and> expression (handleBackspace pw (init_state\<lparr>expression := ''12+3''\<rparr>)) = ''12+''"
  by (simp add: handleBackspace_def init_state_def match_trailing_operators_def
      is_operator_def Let_def lastIndexOf_def substring_def substring_from_def)

subsection \<open>Clicking an operator of the expression\<close>

text \<open>
  C7. After 1, 2, +, 3 a click on the \<open>+\<close> of the rendered expression is to turn the
  operator into \<open>-\<close>. The renderer numbers all tokens, so the \<open>+\<close> carries index 1, and
  handleOperatorClick replaces the operator whose count among the operators is the index:
  the only operator has count 0 and the expression stays as it was, both for the entered
  state (expression \<open>12+\<close>, currentInput \<open>3\<close>) and for a rendered expression \<open>12+3\<close>.
  Index 0 would give \<open>12-3\<close>.
\<close>

theorem operator_click_keeps_expression:
  "expressionText (handleNumber pw ''3'' (handleOperator pw ''+''
       (handleNumber pw ''2'' (handleNumber pw ''1'' init_state))))
     = [NumberSpan 0 ''12'', OperatorSpan 1 ''+'']
   \<and> expression (state_of (click_span rxm pw (OperatorSpan 1 ''+'')
         (handleNumber pw ''3'' (handleOperator pw ''+''
           (handleNumber pw ''2'' (handleNumber pw ''1'' init_state)))))) = ''12+''
   \<and> expressionText (updateDisplay pw (init_state\<lparr>expression := ''12+3''\<rparr>))
     = [NumberSpan 0 ''12'', OperatorSpan 1 ''+'', NumberSpan 2 ''3'']
   \<and> expression (state_of (click_span rxm pw (OperatorSpan 1 ''+'')
         (updateDisplay pw (init_state\<lparr>expression := ''12+3''\<rparr>)))) = ''12+3''
   \<and> expression (handleOperatorClick pw ''+'' 0
         (updateDisplay pw (init_state\<lparr>expression := ''12+3''\<rparr>))) = ''12-3''"
proof -
  have clear: "currentInput init_state = []" "expression init_state = []"
    by (simp_all add: init_state_def)
  note entered = entered_12_plus_3 [OF clear, of pw]
  have click: "expression (state_of (click_span rxm pw (OperatorSpan 1 ''+'') s))
      = replace_operator ''-'' 1 0 (expression s)" for s
    by (simp add: click_span_def handleOperatorClick_def opCycle_def opMap_def
        glyph_times_def glyph_div_def Let_def)
  have direct: "expression (handleOperatorClick pw ''+'' 0 s)
      = replace_operator ''-'' 0 0 (expression s)" for s
    by (simp add: handleOperatorClick_def opCycle_def opMap_def
        glyph_times_def glyph_div_def Let_def)
  have a: "expressionText (handleNumber pw ''3'' (handleOperator pw ''+''
       (handleNumber pw ''2'' (handleNumber pw ''1'' init_state))))
     = [NumberSpan 0 ''12'', OperatorSpan 1 ''+'']"
    by (simp only: entered render_12_plus)
  have b: "expression (state_of (click_span rxm pw (OperatorSpan 1 ''+'')
         (handleNumber pw ''3'' (handleOperator pw ''+''
           (handleNumber pw ''2'' (handleNumber pw ''1'' init_state)))))) = ''12+''"
    by (subst click) (simp add: entered is_operator_def)
  have c: "expressionText (updateDisplay pw (init_state\<lparr>expression := ''12+3''\<rparr>))
     = [NumberSpan 0 ''12'', OperatorSpan 1 ''+'', NumberSpan 2 ''3'']"
  proof -
    have "expression (init_state\<lparr>expression := ''12+3''\<rparr>) = ''12+3''"
      by simp
    then show ?thesis
      by (simp only: updateDisplay_expressionText render_12_plus_3)
  qed
  have d: "expression (state_of (click_span rxm pw (OperatorSpan 1 ''+'')
         (updateDisplay pw (init_state\<lparr>expression := ''12+3''\<rparr>)))) = ''12+3''"
    by (subst click) (simp add: is_operator_def)
  have e: "expression (handleOperatorClick pw ''+'' 0
         (updateDisplay pw (init_state\<lparr>expression := ''12+3''\<rparr>))) = ''12-3''"
    by (subst direct) (simp add: is_operator_def)
  from a b c d e show ?thesis
    by (intro conjI)
qed

subsection \<open>Evaluation\<close>

lemma eval_12_plus_3: "evaluateExpression pw ''12+3'' = ''15''"
  by code_simp

lemma eval_5_div_0: "evaluateExpression pw ''5/0'' = ''Error''"
  by code_simp



subsection \<open>Equals\<close>

lemma history_addHistory:
  "history (addHistory now e r s) =
     (if history s \<noteq> [] \<and> entry_expression (hd (history s)) = e \<and> entry_result (hd (history s)) = r
      then history s
      else take MAX_HISTORY_ITEMS
             (\<lparr>entry_expression = e, entry_result = r, entry_timestamp = now\<rparr> # history s))"
  by (cases "history s") (simp_all add: addHistory_def saveHistory_def)

lemma addHistory_fields [simp]:
  "currentInput (addHistory now e r s) = currentInput s"
  "expression (addHistory now e r s) = expression s"
  "displayResult (addHistory now e r s) = displayResult s"
  by (cases "history s"; simp add: addHistory_def saveHistory_def)+

lemma addHistory_newest:
  "history (addHistory now e r s) \<noteq> []
   \<and> entry_expression (hd (history (addHistory now e r s))) = e
   \<and> entry_result (hd (history (addHistory now e r s))) = r"
  by (cases "history s") (auto simp: history_addHistory MAX_HISTORY_ITEMS_def take_Cons')

lemma handleEquals_fields:
  fixes pw :: "jsnum \<Rightarrow> jsnum \<Rightarrow> jsnum" and s :: calc
  defines "e \<equiv> expression s @ currentInput s"
  defines "result \<equiv> evaluateExpression pw (expression s @ currentInput s)"
  assumes "e \<noteq> []"
  shows "displayResult (handleEquals pw now s) = result"
    and "expression (handleEquals pw now s) = []"
    and "currentInput (handleEquals pw now s) = (if result \<noteq> ''Error'' then result else [])"
    and "history (handleEquals pw now s) =
           (if result \<noteq> ''Error''
            then history (addHistory now (to_display_symbols e) result s)
            else history s)"
  using assms(3) unfolding e_def result_def
  by (auto simp: handleEquals_def Let_def history_addHistory)

text \<open>
  C1. From a cleared state (expression and currentInput empty, any history log) the events
  1, 2, +, 3, = display the result \<open>15\<close>, leave expression empty and currentInput equal
  to \<open>15\<close>, and make the newest history entry the one with expression \<open>12+3\<close> and
  result \<open>15\<close>.
\<close>

theorem equals_after_12_plus_3:
  assumes "currentInput s = []" and "expression s = []"
  shows "displayResult (handleEquals pw now (enter_12_plus_3 pw s)) = ''15''
    \<and> expression (handleEquals pw now (enter_12_plus_3 pw s)) = []
    \<and> currentInput (handleEquals pw now (enter_12_plus_3 pw s)) = ''15''
    \<and> history (handleEquals pw now (enter_12_plus_3 pw s)) \<noteq> []
    \<and> entry_expression (hd (history (handleEquals pw now (enter_12_plus_3 pw s)))) = ''12+3''
    \<and> entry_result (hd (history (handleEquals pw now (enter_12_plus_3 pw s)))) = ''15''"
proof -
  define t where "t = enter_12_plus_3 pw s"
  have t: "currentInput t = ''3''" "expression t = ''12+''"
    unfolding t_def enter_12_plus_3_def by (rule entered_12_plus_3 [OF assms])+
  have flushed: "expression t @ currentInput t = ''12+3''"
    by (simp add: t)
  have ne: "expression t @ currentInput t \<noteq> []"
    by (simp add: t)
  have disp: "to_display_symbols ''12+3'' = ''12+3''"
    by (simp add: to_display_symbols_def)
  note eq = handleEquals_fields [OF ne, of pw now, unfolded flushed eval_12_plus_3 disp]
  have "displayResult (handleEquals pw now t) = ''15''"
    and "expression (handleEquals pw now t) = []"
    and "currentInput (handleEquals pw now t) = ''15''"
    and "history (handleEquals pw now t) = history (addHistory now ''12+3'' ''15'' t)"
    using eq by simp_all
  then show ?thesis
    unfolding t_def [symmetric] by (simp add: addHistory_newest)
qed

theorem equals_after_12_plus_3_witness:
  "currentInput init_state = [] \<and> expression init_state = []
   \<and> displayResult (handleEquals host_pow 0 (enter_12_plus_3 host_pow init_state)) = ''15''
   \<and> expression (handleEquals host_pow 0 (enter_12_plus_3 host_pow init_state)) = []
   \<and> currentInput (handleEquals host_pow 0 (enter_12_plus_3 host_pow init_state)) = ''15''
   \<and> entry_expression (hd (history (handleEquals host_pow 0 (enter_12_plus_3 host_pow init_state))))
        = ''12+3''
   \<and> entry_result (hd (history (handleEquals host_pow 0 (enter_12_plus_3 host_pow init_state))))
        = ''15''"
proof -
  have clear: "currentInput init_state = []" "expression init_state = []"
    by (simp_all add: init_state_def)
  from clear equals_after_12_plus_3 [OF clear, of host_pow 0] show ?thesis
    by simp
qed

text \<open>
  C3. Whenever handleEquals evaluates the flushed expression (expression followed by the
  pending currentInput) to \<open>Error\<close>, the history log stays as it was, expression and
  currentInput become empty and \<open>Error\<close> is displayed. In particular 5, \<open>\<div>\<close>, 0, =
  from a cleared state displays \<open>Error\<close> and leaves the history unchanged.
\<close>

theorem handleEquals_error_keeps_history:
  "(evaluateExpression pw (expression s @ currentInput s) = ''Error'' \<longrightarrow>
      history (handleEquals pw now s) = history s
      \<and> expression (handleEquals pw now s) = []
      \<and> currentInput (handleEquals pw now s) = []
      \<and> displayResult (handleEquals pw now s) = ''Error'')
   \<and> (currentInput c = [] \<and> expression c = [] \<longrightarrow>
      displayResult (handleEquals pw now (enter_5_div_0 pw c)) = ''Error''
      \<and> history (handleEquals pw now (enter_5_div_0 pw c)) = history c
      \<and> expression (handleEquals pw now (enter_5_div_0 pw c)) = []
      \<and> currentInput (handleEquals pw now (enter_5_div_0 pw c)) = [])"
proof -
  have general: "history (handleEquals pw now s) = history s
      \<and> expression (handleEquals pw now s) = []
      \<and> currentInput (handleEquals pw now s) = []
      \<and> displayResult (handleEquals pw now s) = ''Error''"
    if err: "evaluateExpression pw (expression s @ currentInput s) = ''Error''" for s
  proof -
    have ne: "expression s @ currentInput s \<noteq> []"
    proof
      assume "expression s @ currentInput s = []"
      with err have "evaluateExpression pw [] = ''Error''"
        by simp
      then show False
        by (simp add: evaluateExpression_def)
    qed
    from handleEquals_fields [OF ne, of pw now] err show ?thesis
      by simp
  qed
  have scenario: "displayResult (handleEquals pw now (enter_5_div_0 pw c)) = ''Error''
      \<and> history (handleEquals pw now (enter_5_div_0 pw c)) = history c
      \<and> expression (handleEquals pw now (enter_5_div_0 pw c)) = []
      \<and> currentInput (handleEquals pw now (enter_5_div_0 pw c)) = []"
    if clear: "currentInput c = []" "expression c = []"
  proof -
    have t: "currentInput (enter_5_div_0 pw c) = ''0''" "expression (enter_5_div_0 pw c) = ''5/''"
      "history (enter_5_div_0 pw c) = history c"
      using clear
      by (simp_all add: enter_5_div_0_def handleNumber_def handleOperator_def opMap_def
          glyph_times_def glyph_div_def Let_def)
    have "evaluateExpression pw (expression (enter_5_div_0 pw c) @ currentInput (enter_5_div_0 pw c))
        = ''Error''"
      by (simp add: t eval_5_div_0)
    from general [OF this] t(3) show ?thesis
      by simp
  qed
  from general scenario show ?thesis
    by blast
qed

theorem handleEquals_error_keeps_history_witness:
  "evaluateExpression host_pow
      (expression (init_state\<lparr>expression := ''5/''\<rparr>) @ ''0'') = ''Error''
   \<and> history (handleEquals host_pow 0 (init_state\<lparr>expression := ''5/'', currentInput := ''0''\<rparr>)) = []
   \<and> currentInput init_state = [] \<and> expression init_state = []
   \<and> displayResult (handleEquals host_pow 0 (enter_5_div_0 host_pow init_state)) = ''Error''
   \<and> history (handleEquals host_pow 0 (enter_5_div_0 host_pow init_state)) = []"
proof -
  have err: "evaluateExpression host_pow
      (expression (init_state\<lparr>expression := ''5/'', currentInput := ''0''\<rparr>)
       @ currentInput (init_state\<lparr>expression := ''5/'', currentInput := ''0''\<rparr>)) = ''Error''"
    by (simp add: eval_5_div_0)
  have clear: "currentInput init_state = [] \<and> expression init_state = []"
    by (simp add: init_state_def)
  have h: "history init_state = []"
    by (simp add: init_state_def)
  from handleEquals_error_keeps_history
         [of host_pow "init_state\<lparr>expression := ''5/'', currentInput := ''0''\<rparr>" 0 init_state]
       err clear h
  show ?thesis
    by (simp add: eval_5_div_0)
qed

subsection \<open>The history cap\<close>

lemma saveHistory_length: "length (history (saveHistory s)) \<le> MAX_HISTORY_ITEMS"
  by (simp add: saveHistory_def)

lemma add_all_snoc: "add_all (cs @ [(now, e, r)]) s = addHistory now e r (add_all cs s)"
  by (simp add: add_all_def)

lemma inj_entry_of: "inj entry_of"
  by (auto simp: inj_on_def entry_of_def)

lemma history_add_all:
  assumes "history s = []"
  shows "distinct (map snd cs) \<Longrightarrow>
         history (add_all cs s) = take MAX_HISTORY_ITEMS (map entry_of (rev cs))"
proof (induction cs rule: rev_induct)
  case Nil
  show ?case
    by (simp add: add_all_def assms)
next
  case (snoc c cs)
  obtain now e r where c: "c = (now, e, r)"
    by (cases c)
  from snoc.prems have d: "distinct (map snd cs)" and fresh: "(e, r) \<notin> snd ` set cs"
    by (simp_all add: c)
  have before: "history (add_all cs s) = take MAX_HISTORY_ITEMS (map entry_of (rev cs))"
    by (rule snoc.IH [OF d])
  have no_dup: "\<not> (history (add_all cs s) \<noteq> []
      \<and> entry_expression (hd (history (add_all cs s))) = e
      \<and> entry_result (hd (history (add_all cs s))) = r)"
  proof (cases cs rule: rev_cases)
    case Nil
    with before show ?thesis
      by simp
  next
    case (snoc cs' c')
    obtain now' e' r' where c': "c' = (now', e', r')"
      by (cases c')
    from fresh snoc c' have "(e', r') \<noteq> (e, r)"
      by force
    moreover from before snoc have "hd (history (add_all cs s)) = entry_of c'"
      by (simp add: MAX_HISTORY_ITEMS_def)
    ultimately show ?thesis
      by (auto simp: c' entry_of_def)
  qed
  have "history (add_all (cs @ [c]) s)
      = take MAX_HISTORY_ITEMS (entry_of c # history (add_all cs s))"
    unfolding c add_all_snoc history_addHistory using no_dup
    by (auto simp: entry_of_def)
  also have "\<dots> = take MAX_HISTORY_ITEMS (entry_of c # map entry_of (rev cs))"
    by (simp add: before MAX_HISTORY_ITEMS_def take_Cons')
  finally show ?case
    by simp
qed

text \<open>
  C8. After a save the history log has at most 100 entries: saveHistory leaves at most 100,
  and 101 calculations with pairwise different (expression, result), appended by
  addHistory to an empty log, leave exactly 100 entries, the 100 newest in newest-first
  order, without the entry of the first calculation.
\<close>

theorem history_cap:
  "length (history (saveHistory s)) \<le> 100
   \<and> (length cs = 101 \<and> distinct (map snd cs) \<and> history c = [] \<longrightarrow>
        length (history (add_all cs c)) = 100
        \<and> history (add_all cs c) = map entry_of (take 100 (rev cs))
        \<and> entry_of (hd cs) \<notin> set (history (add_all cs c)))"
proof -
  have cap: "length (history (saveHistory s)) \<le> 100"
    using saveHistory_length [of s] by (simp add: MAX_HISTORY_ITEMS_def)
  have run: "length (history (add_all cs c)) = 100
        \<and> history (add_all cs c) = map entry_of (take 100 (rev cs))
        \<and> entry_of (hd cs) \<notin> set (history (add_all cs c))"
    if len: "length cs = 101" and d: "distinct (map snd cs)" and empty: "history c = []"
  proof -
    have h: "history (add_all cs c) = map entry_of (take 100 (rev cs))"
      using history_add_all [OF empty d] by (simp add: MAX_HISTORY_ITEMS_def take_map)
    have l: "length (history (add_all cs c)) = 100"
      by (simp add: h len)
    from d have dc: "distinct cs"
      by (simp add: distinct_map)
    obtain x xs where cs: "cs = x # xs"
      using len by (cases cs) auto
    have "take 100 (rev cs) = rev xs"
      using len by (simp add: cs)
    moreover have "x \<notin> set xs"
      using dc by (simp add: cs)
    ultimately have "hd cs \<notin> set (take 100 (rev cs))"
      by (simp add: cs)
    then have "entry_of (hd cs) \<notin> set (history (add_all cs c))"
      by (simp add: h inj_image_mem_iff [OF inj_entry_of])
    with h l show ?thesis
      by simp
  qed
  from cap run show ?thesis
    by blast
qed

lemma calculations_distinct: "distinct (map snd calculations)"
proof -
  have "inj_on (\<lambda>n. (replicate n CHR ''1'', ''1'')) (set [0..<101])"
    by (rule inj_onI) (metis length_replicate prod.inject)
  then show ?thesis
    by (simp add: calculations_def distinct_map comp_def)
qed

theorem history_cap_witness:
  "length calculations = 101 \<and> distinct (map snd calculations) \<and> history init_state = []
   \<and> length (history (add_all calculations init_state)) = 100
   \<and> entry_of (hd calculations) \<notin> set (history (add_all calculations init_state))"
proof -
  have a: "length calculations = 101"
    by (simp add: calculations_def)
  have b: "history init_state = []"
    by (simp add: init_state_def)
  from history_cap [of init_state calculations init_state] a b calculations_distinct
  show ?thesis
    by blast
qed

subsection \<open>The form of currentInput\<close>

lemma matches_Nil [simp]: "matches_input_pattern []"
  by (simp add: matches_input_pattern_def)

lemma matches_Cons:
  "matches_input_pattern (c # t) =
     (if is_digit c then matches_input_pattern t else c = CHR ''.'' \<and> list_all is_digit t)"
  by (simp add: matches_input_pattern_def)

lemma matches_digits: "list_all is_digit t \<Longrightarrow> matches_input_pattern t"
  by (induction t) (simp_all add: matches_Cons)











subsection \<open>Loading the history\<close>

lemma loadHistory_fallback:
  "loadHistory parse ReadThrows h = JArray []"
  "loadHistory parse Absent h = h"
  "loadHistory parse (Stored []) h = h"
  "stored \<noteq> [] \<Longrightarrow> parse stored = None \<Longrightarrow> loadHistory parse (Stored stored) h = JArray []"
  by (simp_all add: loadHistory_def)

text \<open>
  C9. loadHistory is to leave the empty log for every stored value that is absent or not
  a well-formed serialized history log. In the code only a failing \<open>JSON.parse\<close> (or
  \<open>getItem\<close>) leads to the empty log: a stored text that parses becomes the value of
  \<open>history\<close> whatever it is. The stored text \<open>null\<close> makes \<open>history\<close> null.
\<close>

theorem loadHistory_keeps_any_parsed_value:
  "stored \<noteq> [] \<Longrightarrow> parse stored = Some v \<Longrightarrow> loadHistory parse (Stored stored) h = v"
  by (simp add: loadHistory_def)

theorem loadHistory_keeps_any_parsed_value_witness:
  "''null'' \<noteq> [] \<and> parse_null ''null'' = Some JNull
   \<and> loadHistory parse_null (Stored ''null'') (JArray []) = JNull
   \<and> JNull \<noteq> JArray []"
proof -
  have a: "''null'' \<noteq> []"
    by simp
  have b: "parse_null ''null'' = Some JNull"
    by (simp add: parse_null_def)
  from a b loadHistory_keeps_any_parsed_value [of "''null''" parse_null JNull "JArray []"]
  show ?thesis
    by simp
qed

end
